theory Spec2Isabelle
  imports Main
begin

section \<open>Data model\<close>

text \<open>
  The documents of the application.  A \<open>firebaseUser\<close> is the identity record the
  provider hands to its listeners (\<open>{ uid, email }\<close>); a \<open>user_doc\<close> is the profile
  document kept under \<open>users/<uid>\<close> (\<open>{ id, email, plan }\<close>, with the optional
  \<open>trialEndDate\<close> that the mock provider writes at account creation); a \<open>mock_user\<close> is the
  mock provider's private credential entry.  An optional field that is absent is \<open>None\<close>.
\<close>

datatype plan = Free | Pro

record firebaseUser =
  uid :: string
  email :: string

record user_doc =
  id_u :: string
  email_u :: string
  plan_u :: plan
  trialEndDate :: "string option"

record mock_user =
  password_m :: string
  email_m :: string
  uid_m :: string

text \<open>
  Modelled from the spec: the \<open>Dream\<close> type is declared in \<open>types.ts\<close>, which is not part of
  the sources; the spec gives \<open>{ id, timestamp, content, chatHistory: optional }\<close>.  The
  \<open>timestamp\<close> is kept as the number \<open>new Date(d.timestamp).getTime()\<close> that the mock sorts
  by, and the chat history is of an arbitrary type \<open>'c\<close>.
\<close>

record 'c dream =
  id_d :: string
  timestamp :: int
  content :: string
  chatHistory :: "'c option"

text \<open>
  The object handed to \<open>update\<close>: a partial dream, each field present (\<open>Some\<close>) or not.
\<close>

record 'c dream_patch =
  patch_id :: "string option"
  patch_timestamp :: "int option"
  patch_content :: "string option"
  patch_chatHistory :: "'c option"

text \<open>
  A thrown or rejected value: a provider rejects with a \<open>{ code, message }\<close> pair, the
  service layer throws \<open>new Error(message)\<close>, which has no \<open>code\<close>.  Both carry a
  message, which may be the empty string.
\<close>

record js_error =
  code :: "string option"
  message :: string

text \<open>
  \<open>mockDb\<close>: three JavaScript \<open>Map\<close>s.  A \<open>Map\<close> keeps its keys in insertion order, and
  \<open>values()\<close> is read in that order by \<open>find\<close>, so each is an association list.
\<close>

record 'c mockDb =
  users :: "(string \<times> mock_user) list"
  userProfiles :: "(string \<times> user_doc) list"
  dreams :: "(string \<times> 'c dream list) list"

text \<open>
  The calls that cross the boundary to the identity provider (\<open>auth.*\<close>) and to the profile
  store (\<open>db.collection('users').doc(id).get/set\<close>), recorded in the order they are made.
\<close>

datatype io_event =
    ProviderCreateUser string string
  | ProviderSignIn string string
  | ProviderSignOut
  | ProfileGet string
  | ProfileSet string user_doc

text \<open>
  The state of the client: the mock database, the provider's \<open>_currentUser\<close>, the session
  listener's resolutions that are suspended at \<open>await ... get()\<close> (each holding the snapshot
  that the mock's \<open>get\<close> read when it was called), the values the session callback has been
  invoked with so far, and the boundary calls made so far.  One session subscriber is
  registered (the application's).
\<close>

record 'c world =
  db :: "'c mockDb"
  currentUser :: "firebaseUser option"
  pending :: "user_doc option list"
  emitted :: "user_doc option list"
  io :: "io_event list"

section \<open>The mock store\<close>

text \<open>\<open>Map.prototype.set\<close>: replace the value of an existing key in place, or append.\<close>

fun map_set :: "'k \<Rightarrow> 'v \<Rightarrow> ('k \<times> 'v) list \<Rightarrow> ('k \<times> 'v) list" where
  "map_set k v [] = [(k, v)]"
| "map_set k v ((k', v') # m) = (if k' = k then (k, v) # m else (k', v') # map_set k v m)"

text \<open>\<open>Array.prototype.findIndex\<close>; the result \<open>-1\<close> is \<open>None\<close>.\<close>

fun findIndex :: "('a \<Rightarrow> bool) \<Rightarrow> 'a list \<Rightarrow> nat option" where
  "findIndex p [] = None"
| "findIndex p (x # xs) =
     (if p x then Some 0 else (case findIndex p xs of None \<Rightarrow> None | Some i \<Rightarrow> Some (Suc i)))"

text \<open>\<open>users/<docId>.get()\<close> and \<open>.set(data)\<close> of the mock store.\<close>

definition users_doc_get :: "string \<Rightarrow> 'c world \<Rightarrow> user_doc option \<times> 'c world" where
  "users_doc_get docId w =
     (map_of (userProfiles (db w)) docId, w\<lparr>io := io w @ [ProfileGet docId]\<rparr>)"

definition users_doc_set :: "string \<Rightarrow> user_doc \<Rightarrow> 'c world \<Rightarrow> 'c world" where
  "users_doc_set docId data w =
     w\<lparr>db := (db w)\<lparr>userProfiles := map_set docId data (userProfiles (db w))\<rparr>,
       io := io w @ [ProfileSet docId data]\<rparr>"

text \<open>\<open>mockDb.dreams.get(docId) || []\<close>.\<close>

definition userDreams :: "'c mockDb \<Rightarrow> string \<Rightarrow> 'c dream list" where
  "userDreams m docId = (case map_of (dreams m) docId of None \<Rightarrow> [] | Some ds \<Rightarrow> ds)"

text \<open>\<open>{ ...d, ...data }\<close>: the fields present in the patch replace those of the dream.\<close>

definition spread :: "'c dream \<Rightarrow> 'c dream_patch \<Rightarrow> 'c dream" where
  "spread d data =
     \<lparr>id_d = (case patch_id data of None \<Rightarrow> id_d d | Some v \<Rightarrow> v),
      timestamp = (case patch_timestamp data of None \<Rightarrow> timestamp d | Some v \<Rightarrow> v),
      content = (case patch_content data of None \<Rightarrow> content d | Some v \<Rightarrow> v),
      chatHistory = (case patch_chatHistory data of None \<Rightarrow> chatHistory d | Some v \<Rightarrow> Some v)\<rparr>"

text \<open>\<open>users/<docId>/dreams/<subDocId>.set(data)\<close> and \<open>.update(data)\<close>.\<close>

definition dream_doc_set :: "string \<Rightarrow> string \<Rightarrow> 'c dream \<Rightarrow> 'c mockDb \<Rightarrow> 'c mockDb" where
  "dream_doc_set docId subDocId data m =
     (let ds = userDreams m docId in
      case findIndex (\<lambda>d. id_d d = subDocId) ds of
        Some existingIndex \<Rightarrow> m\<lparr>dreams := map_set docId (ds[existingIndex := data]) (dreams m)\<rparr>
      | None \<Rightarrow> m\<lparr>dreams := map_set docId (ds @ [data]) (dreams m)\<rparr>)"

definition dream_doc_update ::
  "string \<Rightarrow> string \<Rightarrow> 'c dream_patch \<Rightarrow> 'c mockDb \<Rightarrow> 'c mockDb" where
  "dream_doc_update docId subDocId data m =
     (let ds = userDreams m docId in
      case findIndex (\<lambda>d. id_d d = subDocId) ds of
        Some dreamIndex \<Rightarrow>
          m\<lparr>dreams := map_set docId (ds[dreamIndex := spread (ds ! dreamIndex) data]) (dreams m)\<rparr>
      | None \<Rightarrow> m)"

text \<open>
  \<open>orderBy(field, direction).get()\<close>: the stored list, sorted newest first (a stable sort,
  as \<open>Array.prototype.sort\<close> is) when the field is \<open>timestamp\<close> and the direction \<open>desc\<close>.
  The \<open>timestamp\<close> of a dream is the time value of a valid date; a timestamp that does not
  parse, for which \<open>getTime()\<close> is \<open>NaN\<close> and the comparator is no longer consistent, is
  not represented.
\<close>

definition orderBy_get :: "string \<Rightarrow> string \<Rightarrow> string \<Rightarrow> 'c mockDb \<Rightarrow> 'c dream list" where
  "orderBy_get docId field direction m =
     (let ds = userDreams m docId in
      if field = ''timestamp'' \<and> direction = ''desc''
      then sort_key (\<lambda>d. - timestamp d) ds else ds)"

text \<open>\<open>db.batch()\<close> of the mock: \<open>set\<close> has an empty body and \<open>commit\<close> resolves.\<close>

definition batch_set :: "string \<times> string \<Rightarrow> 'c dream \<Rightarrow> 'c mockDb \<Rightarrow> 'c mockDb" where
  "batch_set docRef data m = m"

definition batch_commit :: "'c mockDb \<Rightarrow> 'c mockDb" where
  "batch_commit m = m"

section \<open>The service layer: dreams\<close>

definition getDreamsForUser :: "string \<Rightarrow> 'c mockDb \<Rightarrow> 'c dream list" where
  "getDreamsForUser userId m = orderBy_get userId ''timestamp'' ''desc'' m"

definition saveDreamForUser :: "string \<Rightarrow> 'c dream \<Rightarrow> 'c mockDb \<Rightarrow> 'c mockDb" where
  "saveDreamForUser userId d m = dream_doc_set userId (id_d d) d m"

definition saveAllDreamsForUser :: "string \<Rightarrow> 'c dream list \<Rightarrow> 'c mockDb \<Rightarrow> 'c mockDb" where
  "saveAllDreamsForUser userId ds m =
     batch_commit (fold (\<lambda>d. batch_set (userId, id_d d) d) ds m)"

definition addChatMessageToDream :: "string \<Rightarrow> string \<Rightarrow> 'c \<Rightarrow> 'c mockDb \<Rightarrow> 'c mockDb" where
  "addChatMessageToDream userId dreamId ch m =
     dream_doc_update userId dreamId
       \<lparr>patch_id = None, patch_timestamp = None, patch_content = None,
        patch_chatHistory = Some ch\<rparr> m"

section \<open>The Session Synchronizer\<close>

text \<open>
  \<open>authService.onAuthStateChanged(callback)\<close> registers with the provider an \<open>async\<close>
  listener.  Called with \<open>null\<close> it invokes \<open>callback(null)\<close> at once.  Called with a user it
  calls \<open>get()\<close> (the mock reads the profile map during that call) and suspends at the
  \<open>await\<close>; \<open>listener_resume\<close> is the continuation of the oldest suspended call, which
  invokes \<open>callback\<close> with the document when it exists and with \<open>null\<close> otherwise.
\<close>

definition callback :: "user_doc option \<Rightarrow> 'c world \<Rightarrow> 'c world" where
  "callback ev w = w\<lparr>emitted := emitted w @ [ev]\<rparr>"

definition listener_start :: "firebaseUser option \<Rightarrow> 'c world \<Rightarrow> 'c world" where
  "listener_start fu w =
     (case fu of
        Some u \<Rightarrow>
          (case users_doc_get (uid u) w of
             (userDoc, w') \<Rightarrow> w'\<lparr>pending := pending w' @ [userDoc]\<rparr>)
      | None \<Rightarrow> callback None w)"

definition listener_resume :: "'c world \<Rightarrow> 'c world" where
  "listener_resume w =
     (case pending w of
        [] \<Rightarrow> w
      | userDoc # rest \<Rightarrow>
          (case userDoc of
             Some d \<Rightarrow> callback (Some d) (w\<lparr>pending := rest\<rparr>)
           | None \<Rightarrow> callback None (w\<lparr>pending := rest\<rparr>)))"

text \<open>
  One resolution run to its end with nothing else in between: the call of the listener and,
  for a present identity, its continuation.
\<close>

definition resolve :: "firebaseUser option \<Rightarrow> 'c world \<Rightarrow> 'c world" where
  "resolve fu w =
     (case fu of
        Some u \<Rightarrow> listener_resume (listener_start (Some u) w)
      | None \<Rightarrow> listener_start None w)"

text \<open>
  What the event loop can do to the synchronizer: the provider delivers a notification
  (\<open>_notifyListeners\<close>, or the timer that the mock starts at subscription), or the oldest
  suspended resolution is resumed; the mock's \<open>get\<close> promises are settled in the order
  they were made.  A schedule is a list of such events.
\<close>

datatype sched_event = Deliver "firebaseUser option" | Complete

fun step :: "sched_event \<Rightarrow> 'c world \<Rightarrow> 'c world" where
  "step (Deliver fu) w = listener_start fu w"
| "step Complete w = listener_resume w"

definition run :: "sched_event list \<Rightarrow> 'c world \<Rightarrow> 'c world" where
  "run evs w = fold step evs w"


text \<open>
  An \<open>await\<close> in the service layer, reached after the provider has notified the listener:
  the continuations queued before it run first, that is, every suspended resolution is
  resumed, oldest first.
\<close>

definition settle :: "'c world \<Rightarrow> 'c world" where
  "settle w = run (replicate (length (pending w)) Complete) w"


section \<open>The mock identity provider\<close>

text \<open>\<open>_notifyListeners\<close>: the registered listener is called with \<open>_currentUser\<close>.\<close>

definition notifyListeners :: "'c world \<Rightarrow> 'c world" where
  "notifyListeners w = listener_start (currentUser w) w"

text \<open>The decimal digits of \<open>Date.now()\<close>, as the template literal prints them.\<close>

fun show_nat :: "nat \<Rightarrow> string" where
  "show_nat n =
     (if n < 10 then [char_of (48 + n)]
      else show_nat (n div 10) @ [char_of (48 + n mod 10)])"

declare show_nat.simps [simp del]

text \<open>
  \<open>createUserWithEmailAndPassword\<close>; \<open>now\<close> is the value of \<open>Date.now()\<close> and \<open>trialIso\<close> the
  string \<open>trialEndDate.toISOString()\<close> of the date thirty days later.  The result is the
  rejection or the \<open>user\<close> field of the credential.
\<close>

definition createUserWithEmailAndPassword ::
  "string \<Rightarrow> string \<Rightarrow> nat \<Rightarrow> string \<Rightarrow> 'c world \<Rightarrow> (js_error + firebaseUser option) \<times> 'c world" where
  "createUserWithEmailAndPassword em pw now trialIso w =
     (let w0 = w\<lparr>io := io w @ [ProviderCreateUser em pw]\<rparr> in
      if list_ex (\<lambda>u. email_u u = em) (map snd (userProfiles (db w0)))
      then (Inl \<lparr>code = Some ''auth/email-already-in-use'',
                 message = ''An account with this email already exists.''\<rparr>, w0)
      else
        let uid' = ''mock-uid-'' @ show_nat now;
            w1 = w0\<lparr>currentUser := Some \<lparr>uid = uid', email = em\<rparr>\<rparr>;
            w2 = w1\<lparr>db := (db w1)\<lparr>users :=
                   map_set uid' \<lparr>password_m = pw, email_m = em, uid_m = uid'\<rparr> (users (db w1))\<rparr>\<rparr>;
            w3 = w2\<lparr>db := (db w2)\<lparr>userProfiles :=
                   map_set uid' \<lparr>id_u = uid', email_u = em, plan_u = Free,
                                 trialEndDate = Some trialIso\<rparr> (userProfiles (db w2))\<rparr>\<rparr>;
            w4 = notifyListeners w3
        in (Inr (currentUser w4), w4))"

definition signInWithEmailAndPassword ::
  "string \<Rightarrow> string \<Rightarrow> 'c world \<Rightarrow> (js_error + firebaseUser option) \<times> 'c world" where
  "signInWithEmailAndPassword em pw w =
     (let w0 = w\<lparr>io := io w @ [ProviderSignIn em pw]\<rparr> in
      case find (\<lambda>u. email_m u = em) (map snd (users (db w0))) of
        Some user \<Rightarrow>
          if password_m user = pw
          then (let w1 = w0\<lparr>currentUser := Some \<lparr>uid = uid_m user, email = email_m user\<rparr>\<rparr>;
                    w2 = notifyListeners w1
                in (Inr (currentUser w2), w2))
          else (Inl \<lparr>code = Some ''auth/wrong-password'',
                     message = ''Invalid email or password.''\<rparr>, w0)
      | None \<Rightarrow> (Inl \<lparr>code = Some ''auth/wrong-password'',
                      message = ''Invalid email or password.''\<rparr>, w0))"

definition signOut :: "'c world \<Rightarrow> 'c world" where
  "signOut w =
     notifyListeners (w\<lparr>io := io w @ [ProviderSignOut], currentUser := None\<rparr>)"

section \<open>The service layer: authentication\<close>

text \<open>
  \<open>signUp\<close> and \<open>logIn\<close> await the provider call first; the listener that the provider
  notified during that call has its continuation run at this \<open>await\<close>, before the service
  function goes on to the store.
\<close>

definition signUp ::
  "string \<Rightarrow> string \<Rightarrow> nat \<Rightarrow> string \<Rightarrow> 'c world \<Rightarrow> (js_error + user_doc) \<times> 'c world" where
  "signUp em pw now trialIso w =
     (case createUserWithEmailAndPassword em pw now trialIso w of
        (Inl err, w1) \<Rightarrow> (Inl err, settle w1)
      | (Inr None, w1) \<Rightarrow>
          (Inl \<lparr>code = None, message = ''User creation failed.''\<rparr>, settle w1)
      | (Inr (Some fu), w1) \<Rightarrow>
          (let newUser = \<lparr>id_u = uid fu, email_u = email fu, plan_u = Free, trialEndDate = None\<rparr>
           in (Inr newUser, users_doc_set (uid fu) newUser (settle w1))))"

definition logIn :: "string \<Rightarrow> string \<Rightarrow> 'c world \<Rightarrow> (js_error + user_doc) \<times> 'c world" where
  "logIn em pw w =
     (case signInWithEmailAndPassword em pw w of
        (Inl err, w1) \<Rightarrow> (Inl err, settle w1)
      | (Inr None, w1) \<Rightarrow> (Inl \<lparr>code = None, message = ''Login failed.''\<rparr>, settle w1)
      | (Inr (Some fu), w1) \<Rightarrow>
          (case users_doc_get (uid fu) (settle w1) of
             (None, w2) \<Rightarrow>
               (let newUserProfile =
                      \<lparr>id_u = uid fu, email_u = email fu, plan_u = Free, trialEndDate = None\<rparr>
                in (Inr newUserProfile, users_doc_set (uid fu) newUserProfile w2))
           | (Some d, w2) \<Rightarrow> (Inr d, w2)))"

definition logOut :: "'c world \<Rightarrow> 'c world" where
  "logOut w = signOut w"

section \<open>The Auth Form\<close>

datatype mode = Login | Signup

record form =
  mode_f :: mode
  email_f :: string
  password_f :: string
  isLoading :: bool
  error_f :: "string option"

text \<open>The \<open>catch\<close> block of \<open>handleSubmit\<close>: the message shown for a caught value.\<close>

definition errorMessage :: "js_error \<Rightarrow> string" where
  "errorMessage err =
     (case code err of
        None \<Rightarrow> ''An unexpected error occurred.''
      | Some c \<Rightarrow>
          if c = [] then ''An unexpected error occurred.''
          else if c = ''auth/user-not-found'' \<or> c = ''auth/wrong-password''
            then ''Invalid email or password.''
          else if c = ''auth/email-already-in-use''
            then ''An account with this email already exists.''
          else if c = ''auth/weak-password''
            then ''Password should be at least 6 characters.''
          else message err)"

text \<open>
  \<open>handleSubmit\<close>, with the two service functions that the component imports as
  parameters \<open>logIn'\<close> and \<open>signUp'\<close> over any client state: whatever provider stands behind
  them, they return the user or the value they throw.  \<open>submitCall\<close> is the call made for
  the form's mode.
\<close>

definition submitCall ::
  "(string \<Rightarrow> string \<Rightarrow> 'w \<Rightarrow> (js_error + 'r) \<times> 'w) \<Rightarrow>
   (string \<Rightarrow> string \<Rightarrow> 'w \<Rightarrow> (js_error + 'r) \<times> 'w) \<Rightarrow>
   form \<Rightarrow> 'w \<Rightarrow> (js_error + 'r) \<times> 'w" where
  "submitCall logIn' signUp' f w =
     (if mode_f f = Login then logIn' (email_f f) (password_f f) w
      else signUp' (email_f f) (password_f f) w)"

definition handleSubmit ::
  "(string \<Rightarrow> string \<Rightarrow> 'w \<Rightarrow> (js_error + 'r) \<times> 'w) \<Rightarrow>
   (string \<Rightarrow> string \<Rightarrow> 'w \<Rightarrow> (js_error + 'r) \<times> 'w) \<Rightarrow>
   form \<times> 'w \<Rightarrow> form \<times> 'w" where
  "handleSubmit logIn' signUp' fw =
     (case fw of (f, w) \<Rightarrow>
        if email_f f = [] \<or> password_f f = []
        then (f\<lparr>error_f := Some ''Please enter both email and password.''\<rparr>, w)
        else
          (let f1 = f\<lparr>isLoading := True, error_f := None\<rparr> in
           case submitCall logIn' signUp' f w of
             (Inr u, w') \<Rightarrow> (f1\<lparr>isLoading := False\<rparr>, w')
           | (Inl err, w') \<Rightarrow> (f1\<lparr>error_f := Some (errorMessage err), isLoading := False\<rparr>, w')))"

text \<open>The handler as the application runs it, on the service layer over the mock.\<close>

definition handleSubmit_mock :: "nat \<Rightarrow> string \<Rightarrow> form \<times> 'c world \<Rightarrow> form \<times> 'c world" where
  "handleSubmit_mock now trialIso fw =
     handleSubmit logIn (\<lambda>em pw. signUp em pw now trialIso) fw"

definition toggleMode :: "form \<Rightarrow> form" where
  "toggleMode f =
     f\<lparr>mode_f := (if mode_f f = Login then Signup else Login),
       error_f := None, email_f := [], password_f := []\<rparr>"

section \<open>The billing functions\<close>

text \<open>
  Step 3 of \<open>createStripeCheckoutSession\<close>: \<open>!!userData.trialEndDate\<close> (an absent field and
  the empty string are falsy) and the choice of the price.
\<close>

definition hasUsedTrial :: "user_doc \<Rightarrow> bool" where
  "hasUsedTrial userData = (case trialEndDate userData of None \<Rightarrow> False | Some t \<Rightarrow> t \<noteq> [])"

definition priceId :: "user_doc \<Rightarrow> string \<Rightarrow> string \<Rightarrow> string" where
  "priceId userData regularPriceId trialPriceId =
     (if hasUsedTrial userData then regularPriceId else trialPriceId)"

text \<open>
  \<open>stripeWebhook\<close>.  The request carries the \<open>stripe-signature\<close> header and the raw body; the
  event carries its type and the \<open>client_reference_id\<close> of its session object.
\<close>

record request =
  stripe_signature :: "string option"
  rawBody :: string

record stripe_event =
  type_e :: string
  client_reference_id :: "string option"

datatype body = Text string | Json_received

record response =
  status :: nat
  body_r :: body

text \<open>\<open>!x\<close> for a value that is a string or undefined.\<close>

definition falsy :: "string option \<Rightarrow> bool" where
  "falsy x = (case x of None \<Rightarrow> True | Some s \<Rightarrow> s = [])"

text \<open>
  The Stripe library and the admin Firestore are outside the repository and are parameters:
  \<open>endpointSecret\<close> is the configured secret, \<open>constructEvent\<close> verifies the signature and
  returns the event or the message of the error it throws, \<open>update uid fields s\<close> is
  \<open>users/<uid>.update(fields)\<close> on the server store \<open>s\<close> and returns whether it resolved and
  the store afterwards.  The handler returns the response, the store, and the list of the
  \<open>update\<close> calls it made.
\<close>

definition stripeWebhook ::
  "string option \<Rightarrow> (string \<Rightarrow> string option \<Rightarrow> string \<Rightarrow> string + stripe_event) \<Rightarrow>
   (string \<Rightarrow> (string \<times> string) list \<Rightarrow> 's \<Rightarrow> bool \<times> 's) \<Rightarrow>
   request \<Rightarrow> 's \<Rightarrow> response \<times> 's \<times> (string \<times> (string \<times> string) list) list" where
  "stripeWebhook endpointSecret constructEvent update req s =
     (if falsy endpointSecret
      then (\<lparr>status = 400, body_r = Text ''Webhook secret is not configured.''\<rparr>, s, [])
      else
        case constructEvent (rawBody req) (stripe_signature req) (the endpointSecret) of
          Inl msg \<Rightarrow> (\<lparr>status = 400, body_r = Text (''Webhook Error: '' @ msg)\<rparr>, s, [])
        | Inr event \<Rightarrow>
            if type_e event = ''checkout.session.completed''
            then
              (if falsy (client_reference_id event)
               then (\<lparr>status = 400,
                      body_r = Text ''Webhook Error: Missing client_reference_id.''\<rparr>, s, [])
               else
                 (let firebaseUID = the (client_reference_id event) in
                  case update firebaseUID [(''plan'', ''pro'')] s of
                    (True, s') \<Rightarrow>
                      (\<lparr>status = 200, body_r = Json_received\<rparr>, s',
                       [(firebaseUID, [(''plan'', ''pro'')])])
                  | (False, s') \<Rightarrow>
                      (\<lparr>status = 500, body_r = Text ''Internal server error.''\<rparr>, s',
                       [(firebaseUID, [(''plan'', ''pro'')])])))
            else (\<lparr>status = 200, body_r = Json_received\<rparr>, s, []))"

section \<open>Example states\<close>

text \<open>Concrete stores and collaborators on which the theorems below are exercised.\<close>

definition dreams_db :: "string mockDb" where
  "dreams_db =
     \<lparr>users = [], userProfiles = [],
      dreams = [(''u1'', [\<lparr>id_d = ''d0'', timestamp = 5, content = ''sea'', chatHistory = None\<rparr>,
                         \<lparr>id_d = ''d1'', timestamp = 7, content = ''sky'', chatHistory = None\<rparr>])]\<rparr>"

text \<open>
  A stand-in for the Stripe library: the signature is good when it is the secret, a colon
  and the body; the event is a completed checkout whose correlation id is the body (absent
  when the body is empty).  A stand-in for the server store: the plan of each user, where
  \<open>update\<close> rejects for a user that has no document.
\<close>

definition toy_constructEvent :: "string \<Rightarrow> string option \<Rightarrow> string \<Rightarrow> string + stripe_event" where
  "toy_constructEvent b sg k =
     (if sg = Some (k @ '':'' @ b)
      then Inr \<lparr>type_e = ''checkout.session.completed'',
                client_reference_id = (if b = [] then None else Some b)\<rparr>
      else Inl ''No signatures found matching the expected signature for payload.'')"

definition toy_update ::
  "string \<Rightarrow> (string \<times> string) list \<Rightarrow> (string \<times> (string \<times> string) list) list \<Rightarrow>
   bool \<times> (string \<times> (string \<times> string) list) list" where
  "toy_update u fs s =
     (case map_of s u of
        None \<Rightarrow> (False, s)
      | Some doc \<Rightarrow> (True, map_set u (fold (\<lambda>(k, v). map_set k v) fs doc) s))"

text \<open>
  Client states: nothing stored; Alice registered with a profile; Alice registered with the
  provider but without a profile document.
\<close>

definition empty_world :: "string world" where
  "empty_world =
     \<lparr>db = \<lparr>users = [], userProfiles = [], dreams = []\<rparr>, currentUser = None,
      pending = [], emitted = [], io = []\<rparr>"

definition alice :: firebaseUser where
  "alice = \<lparr>uid = ''u1'', email = ''a@x.com''\<rparr>"

definition alice_doc :: user_doc where
  "alice_doc = \<lparr>id_u = ''u1'', email_u = ''a@x.com'', plan_u = Pro, trialEndDate = None\<rparr>"

definition alice_world :: "string world" where
  "alice_world =
     \<lparr>db = \<lparr>users = [(''u1'', \<lparr>password_m = ''secret1'', email_m = ''a@x.com'', uid_m = ''u1''\<rparr>)],
             userProfiles = [(''u1'', alice_doc)], dreams = []\<rparr>,
      currentUser = None, pending = [], emitted = [], io = []\<rparr>"

definition orphan_world :: "string world" where
  "orphan_world =
     \<lparr>db = \<lparr>users = [(''u1'', \<lparr>password_m = ''secret1'', email_m = ''a@x.com'', uid_m = ''u1''\<rparr>)],
             userProfiles = [], dreams = []\<rparr>,
      currentUser = None, pending = [], emitted = [], io = []\<rparr>"

text \<open>
  A service function that counts its calls and always throws the given value, and a second
  identity, unknown to the store.
\<close>

definition rejecting :: "js_error \<Rightarrow> string \<Rightarrow> string \<Rightarrow> nat \<Rightarrow> (js_error + user_doc) \<times> nat" where
  "rejecting err em pw n = (Inl err, Suc n)"


section \<open>Facts about the store primitives\<close>

lemma map_of_map_set: "map_of (map_set k v m) = (map_of m)(k \<mapsto> v)"
  by (induction m) (auto simp: fun_eq_iff)

lemma findIndex_None_iff: "findIndex p xs = None \<longleftrightarrow> (\<forall>x\<in>set xs. \<not> p x)"
  by (induction xs) (auto split: option.splits)

lemma findIndex_Some:
  "findIndex p xs = Some i \<Longrightarrow> i < length xs \<and> p (xs ! i) \<and> (\<forall>j<i. \<not> p (xs ! j))"
proof (induction xs arbitrary: i)
  case Nil
  then show ?case by simp
next
  case (Cons x xs)
  show ?case
  proof (cases "p x")
    case True
    with Cons.prems show ?thesis by simp
  next
    case False
    with Cons.prems obtain k where k: "findIndex p xs = Some k" "i = Suc k"
      by (auto split: option.splits)
    from Cons.IH [OF k(1)] False k(2) show ?thesis
      by (auto simp: less_Suc_eq_0_disj)
  qed
qed

lemma userDreams_map_set:
  "userDreams (m\<lparr>dreams := map_set k v (dreams m)\<rparr>) u = (if u = k then v else userDreams m u)"
  by (simp add: userDreams_def map_of_map_set)

lemma spread_chat:
  "spread d \<lparr>patch_id = None, patch_timestamp = None, patch_content = None,
             patch_chatHistory = Some ch\<rparr> = d\<lparr>chatHistory := Some ch\<rparr>"
  by (simp add: spread_def)

lemma fold_batch_set: "fold (\<lambda>d. batch_set (userId, id_d d) d) ds m = m"
  by (induction ds) (simp_all add: batch_set_def)

section \<open>The Dream Store\<close>

text \<open>
  C3.  After \<open>saveAllDreamsForUser\<close> has been given a batch of dreams, \<open>getDreamsForUser\<close>
  returns exactly the prior entries, for this and for every other user: the mock's batch
  writes nothing, so the whole store is the one from before and no part of the batch is
  ever visible, let alone a mixture.
\<close>

theorem saveAllDreamsForUser_prior_entries:
  "saveAllDreamsForUser userId ds m = m \<and>
   getDreamsForUser u (saveAllDreamsForUser userId ds m) = getDreamsForUser u m"
  by (simp add: saveAllDreamsForUser_def batch_commit_def fold_batch_set)

text \<open>
  C6.  \<open>addChatMessageToDream\<close>: when the user has a dream with the given id, the first such
  dream gets the chat history of the patch and keeps its other fields, and nothing else in
  the store changes; when the user has no such dream, the store is returned as it was.
  The operation has no failing branch.
\<close>

theorem addChatMessageToDream_merge_or_noop:
  "((\<exists>d\<in>set (userDreams m userId). id_d d = dreamId) \<longrightarrow>
      (\<exists>i<length (userDreams m userId).
          id_d (userDreams m userId ! i) = dreamId \<and>
          (\<forall>j<i. id_d (userDreams m userId ! j) \<noteq> dreamId) \<and>
          userDreams (addChatMessageToDream userId dreamId ch m) userId =
            (userDreams m userId)[i := (userDreams m userId ! i)\<lparr>chatHistory := Some ch\<rparr>]) \<and>
      (\<forall>u. u \<noteq> userId \<longrightarrow>
          userDreams (addChatMessageToDream userId dreamId ch m) u = userDreams m u) \<and>
      users (addChatMessageToDream userId dreamId ch m) = users m \<and>
      userProfiles (addChatMessageToDream userId dreamId ch m) = userProfiles m) \<and>
   ((\<forall>d\<in>set (userDreams m userId). id_d d \<noteq> dreamId) \<longrightarrow>
      addChatMessageToDream userId dreamId ch m = m)"
proof (cases "findIndex (\<lambda>d. id_d d = dreamId) (userDreams m userId)")
  case None
  then have no: "\<forall>d\<in>set (userDreams m userId). id_d d \<noteq> dreamId"
    by (simp add: findIndex_None_iff)
  from None have "addChatMessageToDream userId dreamId ch m = m"
    by (simp add: addChatMessageToDream_def dream_doc_update_def)
  with no show ?thesis by simp
next
  case (Some i)
  note fi = findIndex_Some [OF Some]
  have upd: "addChatMessageToDream userId dreamId ch m =
      m\<lparr>dreams := map_set userId
        ((userDreams m userId)[i := (userDreams m userId ! i)\<lparr>chatHistory := Some ch\<rparr>]) (dreams m)\<rparr>"
    using Some by (simp add: addChatMessageToDream_def dream_doc_update_def spread_chat Let_def)
  have ex: "\<exists>d\<in>set (userDreams m userId). id_d d = dreamId"
    using fi by (metis nth_mem)
  have first: "\<exists>i<length (userDreams m userId).
          id_d (userDreams m userId ! i) = dreamId \<and>
          (\<forall>j<i. id_d (userDreams m userId ! j) \<noteq> dreamId) \<and>
          userDreams (addChatMessageToDream userId dreamId ch m) userId =
            (userDreams m userId)[i := (userDreams m userId ! i)\<lparr>chatHistory := Some ch\<rparr>]"
    using fi by (intro exI [of _ i]) (simp add: upd userDreams_map_set)
  have others: "\<forall>u. u \<noteq> userId \<longrightarrow>
          userDreams (addChatMessageToDream userId dreamId ch m) u = userDreams m u"
    by (simp add: upd userDreams_map_set)
  have rest: "users (addChatMessageToDream userId dreamId ch m) = users m"
     "userProfiles (addChatMessageToDream userId dreamId ch m) = userProfiles m"
    by (simp_all add: upd)
  from ex first others rest show ?thesis by blast
qed

theorem addChatMessageToDream_merge_or_noop_witness:
  "userDreams (addChatMessageToDream ''u1'' ''d1'' ''hello'' dreams_db) ''u1''
     = [\<lparr>id_d = ''d0'', timestamp = 5, content = ''sea'', chatHistory = None\<rparr>,
        \<lparr>id_d = ''d1'', timestamp = 7, content = ''sky'', chatHistory = Some ''hello''\<rparr>] \<and>
   addChatMessageToDream ''u1'' ''d9'' ''hello'' dreams_db = dreams_db"
  using addChatMessageToDream_merge_or_noop [of dreams_db "''u1''" "''d1''" "''hello''"]
    addChatMessageToDream_merge_or_noop [of dreams_db "''u1''" "''d9''" "''hello''"]
  by (auto simp: userDreams_def dreams_db_def less_Suc_eq_0_disj)

section \<open>The Auth Form: mode toggle and error messages\<close>

text \<open>
  C9.  \<open>toggleMode\<close> flips the mode and clears the email, the password and the error; the
  loading flag is left as it is.
\<close>

theorem toggleMode_full_reset:
  "email_f (toggleMode f) = [] \<and> password_f (toggleMode f) = [] \<and> error_f (toggleMode f) = None
   \<and> mode_f (toggleMode f) = (if mode_f f = Login then Signup else Login)
   \<and> isLoading (toggleMode f) = isLoading f"
  by (simp add: toggleMode_def)

text \<open>
  C4, as the code has it.  The four known codes have fixed messages (the two credential
  codes share one), a caught value with no code or an empty code gets the generic message,
  and any other code gets the message that the provider sent with it.
\<close>

theorem errorMessage_cases:
  "errorMessage \<lparr>code = Some ''auth/user-not-found'', message = msg\<rparr> = ''Invalid email or password.'' \<and>
   errorMessage \<lparr>code = Some ''auth/wrong-password'', message = msg\<rparr> = ''Invalid email or password.'' \<and>
   errorMessage \<lparr>code = Some ''auth/email-already-in-use'', message = msg\<rparr>
     = ''An account with this email already exists.'' \<and>
   errorMessage \<lparr>code = Some ''auth/weak-password'', message = msg\<rparr>
     = ''Password should be at least 6 characters.'' \<and>
   errorMessage \<lparr>code = None, message = msg\<rparr> = ''An unexpected error occurred.'' \<and>
   errorMessage \<lparr>code = Some [], message = msg\<rparr> = ''An unexpected error occurred.'' \<and>
   (c \<notin> {[], ''auth/user-not-found'', ''auth/wrong-password'', ''auth/email-already-in-use'',
           ''auth/weak-password''} \<longrightarrow>
      errorMessage \<lparr>code = Some c, message = msg\<rparr> = msg)"
  by (simp add: errorMessage_def)

theorem errorMessage_cases_witness:
  "''auth/too-many-requests'' \<notin> {[], ''auth/user-not-found'', ''auth/wrong-password'',
       ''auth/email-already-in-use'', ''auth/weak-password''} \<and>
   errorMessage \<lparr>code = Some ''auth/too-many-requests'', message = ''Try again later.''\<rparr>
     = ''Try again later.''"
  using errorMessage_cases [of "''Try again later.''" "''auth/too-many-requests''"]
  by simp

text \<open>
  C4 as stated fails: two codes outside the known four are mapped to two different
  messages, each the provider's own text, so there is no single fallback message.
\<close>

theorem errorMessage_fallback_counterexample:
  "errorMessage \<lparr>code = Some ''auth/too-many-requests'', message = ''Try again later.''\<rparr>
     = ''Try again later.'' \<and>
   errorMessage \<lparr>code = Some ''auth/network-request-failed'', message = ''Network error.''\<rparr>
     = ''Network error.'' \<and>
   errorMessage \<lparr>code = Some ''auth/too-many-requests'', message = ''Try again later.''\<rparr>
     \<noteq> errorMessage \<lparr>code = Some ''auth/network-request-failed'', message = ''Network error.''\<rparr>"
  by (simp add: errorMessage_def)

section \<open>The webhook\<close>

text \<open>
  C5.  \<open>stripeWebhook\<close> answers 400 and touches nothing when the secret is not configured or
  the signature check throws.  For a verified \<open>checkout.session.completed\<close> event it answers
  400 and touches nothing when the correlation id is missing; otherwise it makes exactly one
  \<open>update\<close> call, for that id with \<open>plan\<close> set to \<open>pro\<close>, and answers 200 when the update
  resolved and 500 when it was rejected.
\<close>

theorem stripeWebhook_responses:
  "((falsy endpointSecret \<or>
     constructEvent (rawBody req) (stripe_signature req) (the endpointSecret) = Inl msg) \<longrightarrow>
      status (fst (stripeWebhook endpointSecret constructEvent update req s)) = 400 \<and>
      snd (stripeWebhook endpointSecret constructEvent update req s) = (s, [])) \<and>
   ((\<not> falsy endpointSecret \<and>
     constructEvent (rawBody req) (stripe_signature req) (the endpointSecret) = Inr event \<and>
     type_e event = ''checkout.session.completed'') \<longrightarrow>
      (falsy (client_reference_id event) \<longrightarrow>
         status (fst (stripeWebhook endpointSecret constructEvent update req s)) = 400 \<and>
         snd (stripeWebhook endpointSecret constructEvent update req s) = (s, [])) \<and>
      (\<not> falsy (client_reference_id event) \<longrightarrow>
         snd (snd (stripeWebhook endpointSecret constructEvent update req s))
           = [(the (client_reference_id event), [(''plan'', ''pro'')])] \<and>
         fst (snd (stripeWebhook endpointSecret constructEvent update req s))
           = snd (update (the (client_reference_id event)) [(''plan'', ''pro'')] s) \<and>
         status (fst (stripeWebhook endpointSecret constructEvent update req s))
           = (if fst (update (the (client_reference_id event)) [(''plan'', ''pro'')] s)
              then 200 else 500)))"
proof -
  let ?R = "stripeWebhook endpointSecret constructEvent update req s"
  have a: "falsy endpointSecret \<Longrightarrow> status (fst ?R) = 400 \<and> snd ?R = (s, [])"
    by (simp add: stripeWebhook_def)
  have b: "constructEvent (rawBody req) (stripe_signature req) (the endpointSecret) = Inl msg
      \<Longrightarrow> status (fst ?R) = 400 \<and> snd ?R = (s, [])"
    by (simp add: stripeWebhook_def)
  have c: "\<not> falsy endpointSecret \<Longrightarrow>
     constructEvent (rawBody req) (stripe_signature req) (the endpointSecret) = Inr event \<Longrightarrow>
     type_e event = ''checkout.session.completed'' \<Longrightarrow> falsy (client_reference_id event) \<Longrightarrow>
     status (fst ?R) = 400 \<and> snd ?R = (s, [])"
    by (simp add: stripeWebhook_def)
  have d: "\<not> falsy endpointSecret \<Longrightarrow>
     constructEvent (rawBody req) (stripe_signature req) (the endpointSecret) = Inr event \<Longrightarrow>
     type_e event = ''checkout.session.completed'' \<Longrightarrow> \<not> falsy (client_reference_id event) \<Longrightarrow>
     snd (snd ?R) = [(the (client_reference_id event), [(''plan'', ''pro'')])] \<and>
     fst (snd ?R) = snd (update (the (client_reference_id event)) [(''plan'', ''pro'')] s) \<and>
     status (fst ?R) = (if fst (update (the (client_reference_id event)) [(''plan'', ''pro'')] s)
              then 200 else 500)"
    by (cases "update (the (client_reference_id event)) [(''plan'', ''pro'')] s")
       (simp add: stripeWebhook_def Let_def split: bool.splits)
  from a b c d show ?thesis by blast
qed

theorem stripeWebhook_responses_witness:
  "status (fst (stripeWebhook (Some ''whsec'') toy_constructEvent toy_update
        \<lparr>stripe_signature = Some ''forged'', rawBody = ''u1''\<rparr> [(''u1'', [(''plan'', ''free'')])])) = 400 \<and>
   status (fst (stripeWebhook (Some ''whsec'') toy_constructEvent toy_update
        \<lparr>stripe_signature = Some ''whsec:'', rawBody = []\<rparr> [(''u1'', [(''plan'', ''free'')])])) = 400 \<and>
   status (fst (stripeWebhook (Some ''whsec'') toy_constructEvent toy_update
        \<lparr>stripe_signature = Some ''whsec:u1'', rawBody = ''u1''\<rparr> [(''u1'', [(''plan'', ''free'')])])) = 200 \<and>
   snd (stripeWebhook (Some ''whsec'') toy_constructEvent toy_update
        \<lparr>stripe_signature = Some ''whsec:u1'', rawBody = ''u1''\<rparr> [(''u1'', [(''plan'', ''free'')])])
     = ([(''u1'', [(''plan'', ''pro'')])], [(''u1'', [(''plan'', ''pro'')])]) \<and>
   status (fst (stripeWebhook (Some ''whsec'') toy_constructEvent toy_update
        \<lparr>stripe_signature = Some ''whsec:u1'', rawBody = ''u1''\<rparr> [])) = 500"
proof -
  let ?ev = "\<lparr>type_e = ''checkout.session.completed'', client_reference_id = Some ''u1''\<rparr>"
  let ?evnone = "\<lparr>type_e = ''checkout.session.completed'', client_reference_id = None\<rparr>"
  let ?s = "[(''u1'', [(''plan'', ''free'')])]"
  have secret: "\<not> falsy (Some ''whsec'')"
    by (simp add: falsy_def)
  have bad: "toy_constructEvent ''u1'' (Some ''forged'') (the (Some ''whsec''))
      = Inl ''No signatures found matching the expected signature for payload.''"
    by (simp add: toy_constructEvent_def)
  have good: "toy_constructEvent ''u1'' (Some ''whsec:u1'') (the (Some ''whsec'')) = Inr ?ev"
    by (simp add: toy_constructEvent_def)
  have good0: "toy_constructEvent [] (Some ''whsec:'') (the (Some ''whsec'')) = Inr ?evnone"
    by (simp add: toy_constructEvent_def)
  have upd: "toy_update ''u1'' [(''plan'', ''pro'')] ?s = (True, [(''u1'', [(''plan'', ''pro'')])])"
    by (simp add: toy_update_def)
  have upd0: "toy_update ''u1'' [(''plan'', ''pro'')] [] = (False, [])"
    by (simp add: toy_update_def)
  note thm1 = stripeWebhook_responses [where endpointSecret = "Some ''whsec''"
      and constructEvent = toy_constructEvent and update = toy_update
      and req = "\<lparr>stripe_signature = Some ''forged'', rawBody = ''u1''\<rparr>" and s = ?s
      and msg = "''No signatures found matching the expected signature for payload.''"]
  note thm2 = stripeWebhook_responses [where endpointSecret = "Some ''whsec''"
      and constructEvent = toy_constructEvent and update = toy_update
      and req = "\<lparr>stripe_signature = Some ''whsec:'', rawBody = []\<rparr>" and s = ?s
      and event = ?evnone]
  note thm3 = stripeWebhook_responses [where endpointSecret = "Some ''whsec''"
      and constructEvent = toy_constructEvent and update = toy_update
      and req = "\<lparr>stripe_signature = Some ''whsec:u1'', rawBody = ''u1''\<rparr>" and s = ?s
      and event = ?ev]
  note thm4 = stripeWebhook_responses [where endpointSecret = "Some ''whsec''"
      and constructEvent = toy_constructEvent and update = toy_update
      and req = "\<lparr>stripe_signature = Some ''whsec:u1'', rawBody = ''u1''\<rparr>"
      and s = "[]" and event = ?ev]
  have r1: "status (fst (stripeWebhook (Some ''whsec'') toy_constructEvent toy_update
        \<lparr>stripe_signature = Some ''forged'', rawBody = ''u1''\<rparr> ?s)) = 400"
    using thm1 bad by simp
  have r2: "status (fst (stripeWebhook (Some ''whsec'') toy_constructEvent toy_update
        \<lparr>stripe_signature = Some ''whsec:'', rawBody = []\<rparr> ?s)) = 400"
    using thm2 secret good0 by (simp add: falsy_def)
  have r3: "status (fst (stripeWebhook (Some ''whsec'') toy_constructEvent toy_update
        \<lparr>stripe_signature = Some ''whsec:u1'', rawBody = ''u1''\<rparr> ?s)) = 200 \<and>
      snd (stripeWebhook (Some ''whsec'') toy_constructEvent toy_update
        \<lparr>stripe_signature = Some ''whsec:u1'', rawBody = ''u1''\<rparr> ?s)
     = ([(''u1'', [(''plan'', ''pro'')])], [(''u1'', [(''plan'', ''pro'')])])"
    using thm3 secret good upd by (simp add: falsy_def prod_eq_iff)
  have r4: "status (fst (stripeWebhook (Some ''whsec'') toy_constructEvent toy_update
        \<lparr>stripe_signature = Some ''whsec:u1'', rawBody = ''u1''\<rparr> [])) = 500"
    using thm4 secret good upd0 by (simp add: falsy_def)
  from r1 r2 r3 r4 show ?thesis by blast
qed

section \<open>Facts about the synchronizer and the provider\<close>

lemma listener_start_Some:
  "listener_start (Some u) w =
     w\<lparr>io := io w @ [ProfileGet (uid u)],
       pending := pending w @ [map_of (userProfiles (db w)) (uid u)]\<rparr>"
  by (simp add: listener_start_def users_doc_get_def)


lemma listener_resume_Cons:
  "pending w = x # rest \<Longrightarrow>
   listener_resume w = w\<lparr>pending := rest, emitted := emitted w @ [x]\<rparr>"
  by (simp add: listener_resume_def callback_def split: option.splits)

lemma listener_resume_Nil: "pending w = [] \<Longrightarrow> listener_resume w = w"
  by (simp add: listener_resume_def)

lemma listener_resume_fields:
  "emitted (listener_resume w) = emitted w @ take 1 (pending w) \<and>
   pending (listener_resume w) = drop 1 (pending w) \<and>
   db (listener_resume w) = db w \<and> io (listener_resume w) = io w \<and>
   currentUser (listener_resume w) = currentUser w"
proof (cases "pending w")
  case Nil
  then show ?thesis by (simp add: listener_resume_Nil)
next
  case (Cons x rest)
  then show ?thesis by (simp add: listener_resume_Cons)
qed

lemma resolve_present:
  assumes "pending w = []"
  shows "resolve (Some u) w =
     w\<lparr>io := io w @ [ProfileGet (uid u)],
       emitted := emitted w @ [map_of (userProfiles (db w)) (uid u)]\<rparr>"
proof -
  have "pending (listener_start (Some u) w) = [map_of (userProfiles (db w)) (uid u)]"
    using assms by (simp add: listener_start_Some)
  from listener_resume_Cons [OF this] assms show ?thesis
    by (simp add: resolve_def listener_start_Some)
qed



lemma run_Cons: "run (e # evs) w = run evs (step e w)"
  by (simp add: run_def)

lemma run_Nil: "run [] w = w"
  by (simp add: run_def)




lemma run_Completes:
  "emitted (run (replicate n Complete) w) = emitted w @ take n (pending w) \<and>
   pending (run (replicate n Complete) w) = drop n (pending w) \<and>
   db (run (replicate n Complete) w) = db w \<and>
   io (run (replicate n Complete) w) = io w \<and>
   currentUser (run (replicate n Complete) w) = currentUser w"
proof (induction n arbitrary: w)
  case 0
  show ?case by (simp add: run_Nil)
next
  case (Suc n)
  have t: "take (Suc 0) (pending w) @ take n (drop (Suc 0) (pending w)) = take (Suc n) (pending w)"
    by (cases "pending w") simp_all
  from Suc [of "listener_resume w"] show ?case
    by (simp add: run_Cons listener_resume_fields t)
qed

lemma settle_fields:
  "emitted (settle w) = emitted w @ pending w \<and> pending (settle w) = [] \<and>
   db (settle w) = db w \<and> io (settle w) = io w \<and> currentUser (settle w) = currentUser w"
  using run_Completes [of "length (pending w)" w] by (simp add: settle_def)



lemma schedule_last_delivery:
  "\<exists>fu. Deliver fu \<in> set evs \<Longrightarrow> \<exists>pre fu n. evs = pre @ Deliver fu # replicate n Complete"
proof (induction evs rule: rev_induct)
  case Nil
  then show ?case by simp
next
  case (snoc e evs)
  show ?case
  proof (cases e)
    case (Deliver fu)
    then have "evs @ [e] = evs @ Deliver fu # replicate 0 Complete" by simp
    then show ?thesis by blast
  next
    case Complete
    with snoc.prems have "\<exists>fu. Deliver fu \<in> set evs" by auto
    from snoc.IH [OF this] obtain pre fu n
      where "evs = pre @ Deliver fu # replicate n Complete" by blast
    with Complete have "evs @ [e] = pre @ Deliver fu # replicate (Suc n) Complete"
      by (simp add: replicate_append_same)
    then show ?thesis by blast
  qed
qed

lemma notifyListeners_Some:
  "currentUser w = Some fu \<Longrightarrow>
   notifyListeners w =
     w\<lparr>io := io w @ [ProfileGet (uid fu)],
       pending := pending w @ [map_of (userProfiles (db w)) (uid fu)]\<rparr>"
  by (simp add: notifyListeners_def listener_start_Some)

lemma signIn_Inl:
  assumes "fst (signInWithEmailAndPassword em pw w) = Inl err"
  shows "err = \<lparr>code = Some ''auth/wrong-password'', message = ''Invalid email or password.''\<rparr> \<and>
         snd (signInWithEmailAndPassword em pw w) = w\<lparr>io := io w @ [ProviderSignIn em pw]\<rparr>"
  using assms
  by (auto simp: signInWithEmailAndPassword_def Let_def split: option.splits if_splits)

lemma signIn_Inr:
  assumes "fst (signInWithEmailAndPassword em pw w) = Inr r"
  shows "\<exists>fu. r = Some fu \<and>
           snd (signInWithEmailAndPassword em pw w) =
             w\<lparr>io := io w @ [ProviderSignIn em pw, ProfileGet (uid fu)],
               currentUser := Some fu,
               pending := pending w @ [map_of (userProfiles (db w)) (uid fu)]\<rparr>"
  using assms
  by (auto simp: signInWithEmailAndPassword_def Let_def notifyListeners_Some
           split: option.splits if_splits)

lemma createUser_Inl:
  assumes "fst (createUserWithEmailAndPassword em pw now t w) = Inl err"
  shows "err = \<lparr>code = Some ''auth/email-already-in-use'',
                 message = ''An account with this email already exists.''\<rparr> \<and>
         snd (createUserWithEmailAndPassword em pw now t w) = w\<lparr>io := io w @ [ProviderCreateUser em pw]\<rparr>"
  using assms
  by (auto simp: createUserWithEmailAndPassword_def Let_def split: if_splits)

lemma createUser_Inr:
  assumes "fst (createUserWithEmailAndPassword em pw now t w) = Inr r"
  shows "r = Some \<lparr>uid = ''mock-uid-'' @ show_nat now, email = em\<rparr> \<and>
         map_of (userProfiles (db (snd (createUserWithEmailAndPassword em pw now t w))))
            (''mock-uid-'' @ show_nat now)
           = Some \<lparr>id_u = ''mock-uid-'' @ show_nat now, email_u = em, plan_u = Free,
                   trialEndDate = Some t\<rparr>"
  using assms
  by (auto simp: createUserWithEmailAndPassword_def Let_def notifyListeners_Some map_of_map_set
           split: if_splits)

lemma logIn_Inl:
  assumes "fst (logIn em pw w) = Inl err"
  shows "err = \<lparr>code = Some ''auth/wrong-password'', message = ''Invalid email or password.''\<rparr>"
proof (cases "fst (signInWithEmailAndPassword em pw w)")
  case (Inl e)
  with assms have "err = e"
    by (cases "signInWithEmailAndPassword em pw w") (simp add: logIn_def)
  with signIn_Inl [OF Inl] show ?thesis by simp
next
  case (Inr r)
  from signIn_Inr [OF Inr] obtain fu where "r = Some fu" by blast
  with Inr assms show ?thesis
    by (cases "signInWithEmailAndPassword em pw w")
       (simp add: logIn_def users_doc_get_def Let_def split: option.splits)
qed

lemma signUp_Inl:
  assumes "fst (signUp em pw now t w) = Inl err"
  shows "err = \<lparr>code = Some ''auth/email-already-in-use'',
                 message = ''An account with this email already exists.''\<rparr>"
proof (cases "fst (createUserWithEmailAndPassword em pw now t w)")
  case (Inl e)
  with assms have "err = e"
    by (cases "createUserWithEmailAndPassword em pw now t w") (simp add: signUp_def)
  with createUser_Inl [OF Inl] show ?thesis by simp
next
  case (Inr r)
  from createUser_Inr [OF Inr] have "r = Some \<lparr>uid = ''mock-uid-'' @ show_nat now, email = em\<rparr>"
    by simp
  with Inr assms show ?thesis
    by (cases "createUserWithEmailAndPassword em pw now t w") (simp add: signUp_def Let_def)
qed

lemma show_nat_42: "show_nat 42 = ''42''"
  by code_simp

lemma mock_submitCall_Inl:
  assumes "fst (submitCall logIn (\<lambda>em pw. signUp em pw now t) f w) = Inl err"
  shows "errorMessage err = ''Invalid email or password.'' \<or>
         errorMessage err = ''An account with this email already exists.''"
proof (cases "mode_f f = Login")
  case True
  with assms have "fst (logIn (email_f f) (password_f f) w) = Inl err"
    by (simp add: submitCall_def)
  from logIn_Inl [OF this] show ?thesis by (simp add: errorMessage_def)
next
  case False
  with assms have "fst (signUp (email_f f) (password_f f) now t w) = Inl err"
    by (simp add: submitCall_def)
  from signUp_Inl [OF this] show ?thesis by (simp add: errorMessage_def)
qed

lemma errorMessage_nonempty: "message err \<noteq> [] \<Longrightarrow> errorMessage err \<noteq> []"
  by (simp add: errorMessage_def split: option.splits)

section \<open>The Session Synchronizer: resolution\<close>

text \<open>
  C1, as the code has it.  When the identity is present and its id has no profile document,
  a resolution that runs with no other resolution in flight reads the store once, writes
  nothing, and invokes the callback with \<open>null\<close>.  The missing profile is created by
  \<open>logIn\<close> instead: when the provider signs the user in and the id has no profile document,
  \<open>logIn\<close> makes exactly one \<open>set\<close>, of \<open>{ id, email, plan: free }\<close>, and returns that value
  (the two reads before it are the listener's and its own).
\<close>

theorem missing_profile_resolution:
  "(map_of (userProfiles (db w)) (uid u) = None \<and> pending w = [] \<longrightarrow>
      emitted (resolve (Some u) w) = emitted w @ [None] \<and>
      db (resolve (Some u) w) = db w \<and>
      io (resolve (Some u) w) = io w @ [ProfileGet (uid u)]) \<and>
   (fst (signInWithEmailAndPassword em pw w) = Inr (Some fu) \<and>
    map_of (userProfiles (db w)) (uid fu) = None \<longrightarrow>
      fst (logIn em pw w)
        = Inr \<lparr>id_u = uid fu, email_u = email fu, plan_u = Free, trialEndDate = None\<rparr> \<and>
      io (snd (logIn em pw w))
        = io w @ [ProviderSignIn em pw, ProfileGet (uid fu), ProfileGet (uid fu),
                  ProfileSet (uid fu)
                    \<lparr>id_u = uid fu, email_u = email fu, plan_u = Free, trialEndDate = None\<rparr>] \<and>
      map_of (userProfiles (db (snd (logIn em pw w)))) (uid fu)
        = Some \<lparr>id_u = uid fu, email_u = email fu, plan_u = Free, trialEndDate = None\<rparr>)"
proof (intro conjI impI)
  assume a: "map_of (userProfiles (db w)) (uid u) = None \<and> pending w = []"
  then have r: "resolve (Some u) w =
      w\<lparr>io := io w @ [ProfileGet (uid u)], emitted := emitted w @ [None]\<rparr>"
    using resolve_present [of w u] by simp
  show "emitted (resolve (Some u) w) = emitted w @ [None]" by (simp add: r)
  show "db (resolve (Some u) w) = db w" by (simp add: r)
  show "io (resolve (Some u) w) = io w @ [ProfileGet (uid u)]" by (simp add: r)
next
  let ?new = "\<lparr>id_u = uid fu, email_u = email fu, plan_u = Free, trialEndDate = None\<rparr>"
  assume b: "fst (signInWithEmailAndPassword em pw w) = Inr (Some fu) \<and>
    map_of (userProfiles (db w)) (uid fu) = None"
  then have s1: "fst (signInWithEmailAndPassword em pw w) = Inr (Some fu)" by simp
  from signIn_Inr [OF s1]
  have s2: "snd (signInWithEmailAndPassword em pw w) =
             w\<lparr>io := io w @ [ProviderSignIn em pw, ProfileGet (uid fu)],
               currentUser := Some fu,
               pending := pending w @ [map_of (userProfiles (db w)) (uid fu)]\<rparr>"
    by simp
  have l: "logIn em pw w =
      (Inr ?new, users_doc_set (uid fu) ?new
         (snd (users_doc_get (uid fu) (settle (snd (signInWithEmailAndPassword em pw w))))))"
    using b s2
    by (cases "signInWithEmailAndPassword em pw w")
       (simp add: logIn_def users_doc_get_def Let_def settle_fields)
  show "fst (logIn em pw w) = Inr ?new" by (simp add: l)
  show "io (snd (logIn em pw w))
        = io w @ [ProviderSignIn em pw, ProfileGet (uid fu), ProfileGet (uid fu),
                  ProfileSet (uid fu) ?new]"
    by (simp add: l users_doc_set_def users_doc_get_def settle_fields) (simp add: s2)
  show "map_of (userProfiles (db (snd (logIn em pw w)))) (uid fu) = Some ?new"
    by (simp add: l users_doc_set_def map_of_map_set)
qed

theorem missing_profile_resolution_witness:
  "emitted (resolve (Some alice) orphan_world) = [None] \<and>
   userProfiles (db (resolve (Some alice) orphan_world)) = [] \<and>
   io (resolve (Some alice) orphan_world) = [ProfileGet ''u1''] \<and>
   fst (logIn ''a@x.com'' ''secret1'' orphan_world)
     = Inr \<lparr>id_u = ''u1'', email_u = ''a@x.com'', plan_u = Free, trialEndDate = None\<rparr> \<and>
   io (snd (logIn ''a@x.com'' ''secret1'' orphan_world))
     = [ProviderSignIn ''a@x.com'' ''secret1'', ProfileGet ''u1'', ProfileGet ''u1'',
        ProfileSet ''u1'' \<lparr>id_u = ''u1'', email_u = ''a@x.com'', plan_u = Free, trialEndDate = None\<rparr>]"
proof -
  have h1: "map_of (userProfiles (db orphan_world)) (uid alice) = None \<and> pending orphan_world = []"
    by (simp add: orphan_world_def alice_def)
  have h2: "fst (signInWithEmailAndPassword ''a@x.com'' ''secret1'' orphan_world) = Inr (Some alice)
      \<and> map_of (userProfiles (db orphan_world)) (uid alice) = None"
    by (simp add: signInWithEmailAndPassword_def orphan_world_def alice_def notifyListeners_def
        listener_start_def users_doc_get_def)
  have d: "db orphan_world = \<lparr>users = [(''u1'', \<lparr>password_m = ''secret1'', email_m = ''a@x.com'', uid_m = ''u1''\<rparr>)],
             userProfiles = [], dreams = []\<rparr>" "emitted orphan_world = []" "io orphan_world = []"
    by (simp_all add: orphan_world_def)
  from missing_profile_resolution [of orphan_world alice "''a@x.com''" "''secret1''" alice] h1 h2
  show ?thesis
    by (simp add: d alice_def)
qed

text \<open>
  C1 as stated fails: Alice is known to the provider and has no profile document; her
  resolution emits \<open>null\<close>, the profile map is still empty afterwards, and the only store
  call was the read.
\<close>

theorem missing_profile_counterexample:
  "map_of (userProfiles (db orphan_world)) (uid alice) = None \<and>
   emitted (resolve (Some alice) orphan_world) = [None] \<and>
   userProfiles (db (resolve (Some alice) orphan_world)) = [] \<and>
   io (resolve (Some alice) orphan_world) = [ProfileGet ''u1'']"
  by (simp add: resolve_def listener_start_def listener_resume_def users_doc_get_def
      callback_def orphan_world_def alice_def)

text \<open>
  C7.  When the identity's profile exists and no other resolution is in flight, resolving
  the identity twice emits that profile both times; the second resolution leaves the store
  as it is and its only boundary call is one read.
\<close>

theorem resolve_twice_same_profile:
  "map_of (userProfiles (db w)) (uid u) = Some p \<and> pending w = [] \<longrightarrow>
     emitted (resolve (Some u) w) = emitted w @ [Some p] \<and>
     emitted (resolve (Some u) (resolve (Some u) w)) = emitted (resolve (Some u) w) @ [Some p] \<and>
     db (resolve (Some u) (resolve (Some u) w)) = db (resolve (Some u) w) \<and>
     db (resolve (Some u) w) = db w \<and>
     io (resolve (Some u) (resolve (Some u) w)) = io (resolve (Some u) w) @ [ProfileGet (uid u)]"
proof
  assume a: "map_of (userProfiles (db w)) (uid u) = Some p \<and> pending w = []"
  then have p0: "pending w = []" by simp
  have first: "resolve (Some u) w =
     w\<lparr>io := io w @ [ProfileGet (uid u)], emitted := emitted w @ [Some p]\<rparr>"
    using resolve_present [OF p0, of u] a by simp
  have p1: "pending (resolve (Some u) w) = []"
    using p0 by (simp add: first)
  have g1: "map_of (userProfiles (db (resolve (Some u) w))) (uid u) = Some p"
    using a by (simp add: first)
  have second: "resolve (Some u) (resolve (Some u) w) =
     (resolve (Some u) w)\<lparr>io := io (resolve (Some u) w) @ [ProfileGet (uid u)],
       emitted := emitted (resolve (Some u) w) @ [Some p]\<rparr>"
    using resolve_present [OF p1, of u] g1 by simp
  have e1: "emitted (resolve (Some u) w) = emitted w @ [Some p]"
    by (simp add: first)
  have d1: "db (resolve (Some u) w) = db w"
    by (simp add: first)
  have e2: "emitted (resolve (Some u) (resolve (Some u) w)) = emitted (resolve (Some u) w) @ [Some p]"
    by (subst second) simp
  have d2: "db (resolve (Some u) (resolve (Some u) w)) = db (resolve (Some u) w)"
    by (subst second) simp
  have i2: "io (resolve (Some u) (resolve (Some u) w)) = io (resolve (Some u) w) @ [ProfileGet (uid u)]"
    by (subst second) simp
  from e1 e2 d2 d1 i2
  show "emitted (resolve (Some u) w) = emitted w @ [Some p] \<and>
     emitted (resolve (Some u) (resolve (Some u) w)) = emitted (resolve (Some u) w) @ [Some p] \<and>
     db (resolve (Some u) (resolve (Some u) w)) = db (resolve (Some u) w) \<and>
     db (resolve (Some u) w) = db w \<and>
     io (resolve (Some u) (resolve (Some u) w)) = io (resolve (Some u) w) @ [ProfileGet (uid u)]"
    by blast
qed

theorem resolve_twice_same_profile_witness:
  "emitted (resolve (Some alice) alice_world) = [Some alice_doc] \<and>
   emitted (resolve (Some alice) (resolve (Some alice) alice_world))
     = [Some alice_doc, Some alice_doc] \<and>
   db (resolve (Some alice) (resolve (Some alice) alice_world)) = db alice_world \<and>
   io (resolve (Some alice) (resolve (Some alice) alice_world)) = [ProfileGet ''u1'', ProfileGet ''u1'']"
proof -
  have h: "map_of (userProfiles (db alice_world)) (uid alice) = Some alice_doc \<and>
           pending alice_world = []"
    by (simp add: alice_world_def alice_def)
  have i1: "io (resolve (Some alice) alice_world) = [ProfileGet ''u1'']"
    by (simp add: resolve_def listener_start_def listener_resume_def users_doc_get_def
      callback_def alice_world_def alice_def)
  have e0: "emitted alice_world = []"
    by (simp add: alice_world_def)
  have u: "uid alice = ''u1''"
    by (simp add: alice_def)
  from resolve_twice_same_profile [of alice_world alice alice_doc] h
  show ?thesis
    by (simp add: i1 e0 u)
qed

section \<open>The Session Synchronizer: ordering\<close>




section \<open>The Auth Form: submitting\<close>

text \<open>
  C8.  With an empty email or an empty password \<open>handleSubmit\<close> sets the validation message
  and returns the client state untouched, whatever the service functions are, so neither
  is called; over the mock this leaves the log of provider and store calls as it was.
  When both fields are given and the call for the form's mode throws, whatever value it
  throws, the error is set to the message mapped from that value, the loading flag is
  cleared, and the client state is the one the failed call left; the message is not empty
  when the thrown value's own message is not.  Over the mock the message set is never
  empty.
\<close>

theorem handleSubmit_validation_and_failure:
  "((email_f f = [] \<or> password_f f = []) \<longrightarrow>
      handleSubmit logIn' signUp' (f, w)
        = (f\<lparr>error_f := Some ''Please enter both email and password.''\<rparr>, w) \<and>
      handleSubmit_mock now t (f, w0)
        = (f\<lparr>error_f := Some ''Please enter both email and password.''\<rparr>, w0)) \<and>
   ((email_f f \<noteq> [] \<and> password_f f \<noteq> [] \<and> fst (submitCall logIn' signUp' f w) = Inl err) \<longrightarrow>
      error_f (fst (handleSubmit logIn' signUp' (f, w))) = Some (errorMessage err) \<and>
      isLoading (fst (handleSubmit logIn' signUp' (f, w))) = False \<and>
      snd (handleSubmit logIn' signUp' (f, w)) = snd (submitCall logIn' signUp' f w) \<and>
      (message err \<noteq> [] \<longrightarrow> errorMessage err \<noteq> [])) \<and>
   ((email_f f \<noteq> [] \<and> password_f f \<noteq> [] \<and>
     fst (submitCall logIn (\<lambda>em pw. signUp em pw now t) f w0) = Inl err0) \<longrightarrow>
      error_f (fst (handleSubmit_mock now t (f, w0))) = Some (errorMessage err0) \<and>
      errorMessage err0 \<noteq> [] \<and>
      isLoading (fst (handleSubmit_mock now t (f, w0))) = False)"
proof -
  have general: "error_f (fst (handleSubmit li su (f, v))) = Some (errorMessage e) \<and>
      isLoading (fst (handleSubmit li su (f, v))) = False \<and>
      snd (handleSubmit li su (f, v)) = snd (submitCall li su f v)"
    if "email_f f \<noteq> [] \<and> password_f f \<noteq> [] \<and> fst (submitCall li su f v) = Inl e"
    for li su :: "string \<Rightarrow> string \<Rightarrow> 'x \<Rightarrow> (js_error + 'y) \<times> 'x" and v e
  proof -
    from that have "handleSubmit li su (f, v) =
        (f\<lparr>isLoading := False, error_f := Some (errorMessage e)\<rparr>, snd (submitCall li su f v))"
      by (cases "submitCall li su f v") (simp add: handleSubmit_def Let_def)
    then show ?thesis by simp
  qed
  have validation: "handleSubmit li su (f, v)
        = (f\<lparr>error_f := Some ''Please enter both email and password.''\<rparr>, v)"
    if "email_f f = [] \<or> password_f f = []"
    for li su :: "string \<Rightarrow> string \<Rightarrow> 'x \<Rightarrow> (js_error + 'y) \<times> 'x" and v
    using that by (auto simp: handleSubmit_def)
  show ?thesis
  proof (intro conjI impI)
    assume a: "email_f f = [] \<or> password_f f = []"
    from validation [OF a] show "handleSubmit logIn' signUp' (f, w)
        = (f\<lparr>error_f := Some ''Please enter both email and password.''\<rparr>, w)" .
    from validation [OF a] show "handleSubmit_mock now t (f, w0)
        = (f\<lparr>error_f := Some ''Please enter both email and password.''\<rparr>, w0)"
      by (simp add: handleSubmit_mock_def)
  next
    assume a: "email_f f \<noteq> [] \<and> password_f f \<noteq> [] \<and> fst (submitCall logIn' signUp' f w) = Inl err"
    from general [OF a]
    show "error_f (fst (handleSubmit logIn' signUp' (f, w))) = Some (errorMessage err)"
      and "isLoading (fst (handleSubmit logIn' signUp' (f, w))) = False"
      and "snd (handleSubmit logIn' signUp' (f, w)) = snd (submitCall logIn' signUp' f w)"
      by simp_all
  next
    assume "message err \<noteq> []"
    then show "errorMessage err \<noteq> []" by (rule errorMessage_nonempty)
  next
    assume a: "email_f f \<noteq> [] \<and> password_f f \<noteq> [] \<and>
       fst (submitCall logIn (\<lambda>em pw. signUp em pw now t) f w0) = Inl err0"
    from general [OF a]
    show "error_f (fst (handleSubmit_mock now t (f, w0))) = Some (errorMessage err0)"
      and "isLoading (fst (handleSubmit_mock now t (f, w0))) = False"
      by (simp_all add: handleSubmit_mock_def)
    from a have "fst (submitCall logIn (\<lambda>em pw. signUp em pw now t) f w0) = Inl err0" by simp
    from mock_submitCall_Inl [OF this] show "errorMessage err0 \<noteq> []" by auto
  qed
qed

theorem handleSubmit_validation_and_failure_witness:
  "handleSubmit (rejecting \<lparr>code = Some ''auth/user-not-found'', message = ''No user record.''\<rparr>)
      (rejecting \<lparr>code = Some ''auth/weak-password'', message = ''Weak password.''\<rparr>)
      (\<lparr>mode_f = Login, email_f = ''a@x.com'', password_f = [], isLoading = False, error_f = None\<rparr>, 0)
    = (\<lparr>mode_f = Login, email_f = ''a@x.com'', password_f = [], isLoading = False, error_f = None\<rparr>\<lparr>error_f := Some ''Please enter both email and password.''\<rparr>, 0) \<and>
   handleSubmit_mock 42 ''2026-12-02'' (\<lparr>mode_f = Login, email_f = ''a@x.com'', password_f = [], isLoading = False, error_f = None\<rparr>, alice_world)
    = (\<lparr>mode_f = Login, email_f = ''a@x.com'', password_f = [], isLoading = False, error_f = None\<rparr>\<lparr>error_f := Some ''Please enter both email and password.''\<rparr>, alice_world) \<and>
   error_f (fst (handleSubmit (rejecting \<lparr>code = Some ''auth/user-not-found'', message = ''No user record.''\<rparr>)
      (rejecting \<lparr>code = Some ''auth/weak-password'', message = ''Weak password.''\<rparr>)
      (\<lparr>mode_f = Login, email_f = ''a@x.com'', password_f = ''secret1'', isLoading = False, error_f = None\<rparr>, 0))) = Some ''Invalid email or password.'' \<and>
   isLoading (fst (handleSubmit (rejecting \<lparr>code = Some ''auth/user-not-found'', message = ''No user record.''\<rparr>)
      (rejecting \<lparr>code = Some ''auth/weak-password'', message = ''Weak password.''\<rparr>)
      (\<lparr>mode_f = Login, email_f = ''a@x.com'', password_f = ''secret1'', isLoading = False, error_f = None\<rparr>, 0))) = False \<and>
   snd (handleSubmit (rejecting \<lparr>code = Some ''auth/user-not-found'', message = ''No user record.''\<rparr>)
      (rejecting \<lparr>code = Some ''auth/weak-password'', message = ''Weak password.''\<rparr>)
      (\<lparr>mode_f = Login, email_f = ''a@x.com'', password_f = ''secret1'', isLoading = False, error_f = None\<rparr>, 0)) = Suc 0 \<and>
   error_f (fst (handleSubmit (rejecting \<lparr>code = Some ''auth/user-not-found'', message = ''No user record.''\<rparr>)
      (rejecting \<lparr>code = Some ''auth/weak-password'', message = ''Weak password.''\<rparr>)
      (\<lparr>mode_f = Signup, email_f = ''a@x.com'', password_f = ''abc'', isLoading = False, error_f = None\<rparr>, 0))) = Some ''Password should be at least 6 characters.'' \<and>
   isLoading (fst (handleSubmit (rejecting \<lparr>code = Some ''auth/user-not-found'', message = ''No user record.''\<rparr>)
      (rejecting \<lparr>code = Some ''auth/weak-password'', message = ''Weak password.''\<rparr>)
      (\<lparr>mode_f = Signup, email_f = ''a@x.com'', password_f = ''abc'', isLoading = False, error_f = None\<rparr>, 0))) = False \<and>
   snd (handleSubmit (rejecting \<lparr>code = Some ''auth/user-not-found'', message = ''No user record.''\<rparr>)
      (rejecting \<lparr>code = Some ''auth/weak-password'', message = ''Weak password.''\<rparr>)
      (\<lparr>mode_f = Signup, email_f = ''a@x.com'', password_f = ''abc'', isLoading = False, error_f = None\<rparr>, 0)) = Suc 0 \<and>
   error_f (fst (handleSubmit (rejecting \<lparr>code = Some ''auth/too-many-requests'', message = ''Try again later.''\<rparr>)
      (rejecting \<lparr>code = None, message = ''User creation failed.''\<rparr>)
      (\<lparr>mode_f = Login, email_f = ''a@x.com'', password_f = ''secret1'', isLoading = False, error_f = None\<rparr>, 0))) = Some ''Try again later.'' \<and>
   isLoading (fst (handleSubmit (rejecting \<lparr>code = Some ''auth/too-many-requests'', message = ''Try again later.''\<rparr>)
      (rejecting \<lparr>code = None, message = ''User creation failed.''\<rparr>)
      (\<lparr>mode_f = Login, email_f = ''a@x.com'', password_f = ''secret1'', isLoading = False, error_f = None\<rparr>, 0))) = False \<and>
   snd (handleSubmit (rejecting \<lparr>code = Some ''auth/too-many-requests'', message = ''Try again later.''\<rparr>)
      (rejecting \<lparr>code = None, message = ''User creation failed.''\<rparr>)
      (\<lparr>mode_f = Login, email_f = ''a@x.com'', password_f = ''secret1'', isLoading = False, error_f = None\<rparr>, 0)) = Suc 0 \<and>
   error_f (fst (handleSubmit (rejecting \<lparr>code = Some ''auth/too-many-requests'', message = ''Try again later.''\<rparr>)
      (rejecting \<lparr>code = None, message = ''User creation failed.''\<rparr>)
      (\<lparr>mode_f = Signup, email_f = ''a@x.com'', password_f = ''secret1'', isLoading = False, error_f = None\<rparr>, 0))) = Some ''An unexpected error occurred.'' \<and>
   isLoading (fst (handleSubmit (rejecting \<lparr>code = Some ''auth/too-many-requests'', message = ''Try again later.''\<rparr>)
      (rejecting \<lparr>code = None, message = ''User creation failed.''\<rparr>)
      (\<lparr>mode_f = Signup, email_f = ''a@x.com'', password_f = ''secret1'', isLoading = False, error_f = None\<rparr>, 0))) = False \<and>
   snd (handleSubmit (rejecting \<lparr>code = Some ''auth/too-many-requests'', message = ''Try again later.''\<rparr>)
      (rejecting \<lparr>code = None, message = ''User creation failed.''\<rparr>)
      (\<lparr>mode_f = Signup, email_f = ''a@x.com'', password_f = ''secret1'', isLoading = False, error_f = None\<rparr>, 0)) = Suc 0 \<and>
   error_f (fst (handleSubmit_mock 42 ''2026-12-02'' (\<lparr>mode_f = Login, email_f = ''a@x.com'', password_f = ''wrong'', isLoading = False, error_f = None\<rparr>, alice_world)))
     = Some ''Invalid email or password.'' \<and>
   isLoading (fst (handleSubmit_mock 42 ''2026-12-02'' (\<lparr>mode_f = Login, email_f = ''a@x.com'', password_f = ''wrong'', isLoading = False, error_f = None\<rparr>, alice_world))) = False \<and>
   error_f (fst (handleSubmit_mock 42 ''2026-12-02'' (\<lparr>mode_f = Signup, email_f = ''a@x.com'', password_f = ''secret2'', isLoading = False, error_f = None\<rparr>, alice_world)))
     = Some ''An account with this email already exists.''"
proof -
  let ?f1 = "\<lparr>mode_f = Login, email_f = ''a@x.com'', password_f = [], isLoading = False, error_f = None\<rparr>"
  let ?fl = "\<lparr>mode_f = Login, email_f = ''a@x.com'', password_f = ''secret1'', isLoading = False, error_f = None\<rparr>"
  let ?fw = "\<lparr>mode_f = Signup, email_f = ''a@x.com'', password_f = ''abc'', isLoading = False, error_f = None\<rparr>"
  let ?fs = "\<lparr>mode_f = Signup, email_f = ''a@x.com'', password_f = ''secret1'', isLoading = False, error_f = None\<rparr>"
  let ?fa = "\<lparr>mode_f = Login, email_f = ''a@x.com'', password_f = ''wrong'', isLoading = False, error_f = None\<rparr>"
  let ?fb = "\<lparr>mode_f = Signup, email_f = ''a@x.com'', password_f = ''secret2'', isLoading = False, error_f = None\<rparr>"
  let ?notfound = "\<lparr>code = Some ''auth/user-not-found'', message = ''No user record.''\<rparr>"
  let ?weak = "\<lparr>code = Some ''auth/weak-password'', message = ''Weak password.''\<rparr>"
  let ?other = "\<lparr>code = Some ''auth/too-many-requests'', message = ''Try again later.''\<rparr>"
  let ?nocode = "\<lparr>code = None, message = ''User creation failed.''\<rparr>"
  let ?wrong = "\<lparr>code = Some ''auth/wrong-password'', message = ''Invalid email or password.''\<rparr>"
  let ?inuse = "\<lparr>code = Some ''auth/email-already-in-use'',
                  message = ''An account with this email already exists.''\<rparr>"
  have m: "errorMessage ?notfound = ''Invalid email or password.''"
    "errorMessage ?weak = ''Password should be at least 6 characters.''"
    "errorMessage ?other = ''Try again later.''"
    "errorMessage ?nocode = ''An unexpected error occurred.''"
    "errorMessage ?wrong = ''Invalid email or password.''"
    "errorMessage ?inuse = ''An account with this email already exists.''"
    by (simp_all add: errorMessage_def)
  have ca: "fst (submitCall logIn (\<lambda>em pw. signUp em pw 42 ''2026-12-02'') ?fa alice_world)
      = Inl ?wrong"
    by (simp add: submitCall_def logIn_def signInWithEmailAndPassword_def alice_world_def)
  have cb: "fst (submitCall logIn (\<lambda>em pw. signUp em pw 42 ''2026-12-02'') ?fb alice_world)
      = Inl ?inuse"
    by (simp add: submitCall_def signUp_def createUserWithEmailAndPassword_def alice_world_def
        alice_doc_def)
  have r1: "handleSubmit (rejecting ?notfound) (rejecting ?weak) (?f1, 0)
       = (?f1\<lparr>error_f := Some ''Please enter both email and password.''\<rparr>, 0)"
    and r2: "handleSubmit_mock 42 ''2026-12-02'' (?f1, alice_world)
       = (?f1\<lparr>error_f := Some ''Please enter both email and password.''\<rparr>, alice_world)"
    using handleSubmit_validation_and_failure [of ?f1 "rejecting ?notfound" "rejecting ?weak" 0
        42 "''2026-12-02''" alice_world]
    by simp_all
  have r3: "error_f (fst (handleSubmit (rejecting ?notfound) (rejecting ?weak) (?fl, 0)))
         = Some ''Invalid email or password.'' \<and>
       isLoading (fst (handleSubmit (rejecting ?notfound) (rejecting ?weak) (?fl, 0))) = False \<and>
       snd (handleSubmit (rejecting ?notfound) (rejecting ?weak) (?fl, 0)) = Suc 0"
    using handleSubmit_validation_and_failure [of ?fl "rejecting ?notfound" "rejecting ?weak" 0
        42 "''2026-12-02''" alice_world ?notfound]
    by (simp add: submitCall_def rejecting_def m)
  have r4: "error_f (fst (handleSubmit (rejecting ?notfound) (rejecting ?weak) (?fw, 0)))
         = Some ''Password should be at least 6 characters.'' \<and>
       isLoading (fst (handleSubmit (rejecting ?notfound) (rejecting ?weak) (?fw, 0))) = False \<and>
       snd (handleSubmit (rejecting ?notfound) (rejecting ?weak) (?fw, 0)) = Suc 0"
    using handleSubmit_validation_and_failure [of ?fw "rejecting ?notfound" "rejecting ?weak" 0
        42 "''2026-12-02''" alice_world ?weak]
    by (simp add: submitCall_def rejecting_def m)
  have r5: "error_f (fst (handleSubmit (rejecting ?other) (rejecting ?nocode) (?fl, 0)))
         = Some ''Try again later.'' \<and>
       isLoading (fst (handleSubmit (rejecting ?other) (rejecting ?nocode) (?fl, 0))) = False \<and>
       snd (handleSubmit (rejecting ?other) (rejecting ?nocode) (?fl, 0)) = Suc 0"
    using handleSubmit_validation_and_failure [of ?fl "rejecting ?other" "rejecting ?nocode" 0
        42 "''2026-12-02''" alice_world ?other]
    by (simp add: submitCall_def rejecting_def m)
  have r6: "error_f (fst (handleSubmit (rejecting ?other) (rejecting ?nocode) (?fs, 0)))
         = Some ''An unexpected error occurred.'' \<and>
       isLoading (fst (handleSubmit (rejecting ?other) (rejecting ?nocode) (?fs, 0))) = False \<and>
       snd (handleSubmit (rejecting ?other) (rejecting ?nocode) (?fs, 0)) = Suc 0"
    using handleSubmit_validation_and_failure [of ?fs "rejecting ?other" "rejecting ?nocode" 0
        42 "''2026-12-02''" alice_world ?nocode]
    by (simp add: submitCall_def rejecting_def m)
  have r7: "error_f (fst (handleSubmit_mock 42 ''2026-12-02'' (?fa, alice_world)))
        = Some ''Invalid email or password.''"
    "isLoading (fst (handleSubmit_mock 42 ''2026-12-02'' (?fa, alice_world))) = False"
    using handleSubmit_validation_and_failure [of ?fa logIn "\<lambda>em pw. signUp em pw 42 ''2026-12-02''"
        alice_world 42 "''2026-12-02''" alice_world ?wrong ?wrong] ca
    by (simp_all add: m)
  have r8: "error_f (fst (handleSubmit_mock 42 ''2026-12-02'' (?fb, alice_world)))
        = Some ''An account with this email already exists.''"
    using handleSubmit_validation_and_failure [of ?fb logIn "\<lambda>em pw. signUp em pw 42 ''2026-12-02''"
        alice_world 42 "''2026-12-02''" alice_world ?inuse ?inuse] cb
    by (simp add: m)
  from r1 r2 r3 r4 r5 r6 r7 r8 show ?thesis by simp
qed

section \<open>Signing up\<close>

text \<open>
  C10.  When \<open>signUp\<close> succeeds, the value it returns is \<open>{ id, email, plan: free }\<close> for the
  new id, the profile document stored under that id is exactly that value, although the
  account-creation step had stored the same document with a \<open>trialEndDate\<close>; for the stored
  document the checkout function's has-used-trial check is false and the trial price is
  chosen.
\<close>

theorem signUp_overwrites_trial:
  "fst (signUp em pw now t w) = Inr u \<longrightarrow>
     u = \<lparr>id_u = ''mock-uid-'' @ show_nat now, email_u = em, plan_u = Free, trialEndDate = None\<rparr> \<and>
     map_of (userProfiles (db (snd (signUp em pw now t w)))) (id_u u) = Some u \<and>
     map_of (userProfiles (db (snd (createUserWithEmailAndPassword em pw now t w)))) (id_u u)
       = Some (u\<lparr>trialEndDate := Some t\<rparr>) \<and>
     \<not> hasUsedTrial u \<and>
     priceId u regularPriceId trialPriceId = trialPriceId"
proof
  let ?u = "\<lparr>id_u = ''mock-uid-'' @ show_nat now, email_u = em, plan_u = Free, trialEndDate = None\<rparr>"
  let ?fu = "\<lparr>uid = ''mock-uid-'' @ show_nat now, email = em\<rparr>"
  assume a: "fst (signUp em pw now t w) = Inr u"
  obtain r w1 where c: "createUserWithEmailAndPassword em pw now t w = (r, w1)"
    by (cases "createUserWithEmailAndPassword em pw now t w")
  from a c obtain x where r: "r = Inr x"
    by (cases r) (simp_all add: signUp_def)
  with c have "fst (createUserWithEmailAndPassword em pw now t w) = Inr x" by simp
  from createUser_Inr [OF this] c
  have x: "x = Some ?fu"
    and stored: "map_of (userProfiles (db w1)) (''mock-uid-'' @ show_nat now)
        = Some \<lparr>id_u = ''mock-uid-'' @ show_nat now, email_u = em, plan_u = Free,
                trialEndDate = Some t\<rparr>"
    by simp_all
  have s: "signUp em pw now t w =
      (Inr ?u, users_doc_set (''mock-uid-'' @ show_nat now) ?u (settle w1))"
    using c r x by (simp add: signUp_def Let_def)
  with a have u: "u = ?u" by simp
  have "map_of (userProfiles (db (snd (signUp em pw now t w)))) (id_u u) = Some u"
    by (simp add: s u users_doc_set_def map_of_map_set)
  moreover have "map_of (userProfiles (db (snd (createUserWithEmailAndPassword em pw now t w)))) (id_u u)
       = Some (u\<lparr>trialEndDate := Some t\<rparr>)"
    using stored by (simp add: c u)
  moreover have "\<not> hasUsedTrial u" "priceId u regularPriceId trialPriceId = trialPriceId"
    by (simp_all add: u hasUsedTrial_def priceId_def)
  ultimately show "u = ?u \<and>
     map_of (userProfiles (db (snd (signUp em pw now t w)))) (id_u u) = Some u \<and>
     map_of (userProfiles (db (snd (createUserWithEmailAndPassword em pw now t w)))) (id_u u)
       = Some (u\<lparr>trialEndDate := Some t\<rparr>) \<and>
     \<not> hasUsedTrial u \<and>
     priceId u regularPriceId trialPriceId = trialPriceId"
    using u by blast
qed

theorem signUp_overwrites_trial_witness:
  "fst (signUp ''a@x.com'' ''secret1'' 42 ''2026-12-02T00:00:00.000Z'' empty_world)
     = Inr \<lparr>id_u = ''mock-uid-42'', email_u = ''a@x.com'', plan_u = Free, trialEndDate = None\<rparr> \<and>
   userProfiles (db (snd (signUp ''a@x.com'' ''secret1'' 42 ''2026-12-02T00:00:00.000Z'' empty_world)))
     = [(''mock-uid-42'',
         \<lparr>id_u = ''mock-uid-42'', email_u = ''a@x.com'', plan_u = Free, trialEndDate = None\<rparr>)] \<and>
   userProfiles (db (snd (createUserWithEmailAndPassword ''a@x.com'' ''secret1'' 42
        ''2026-12-02T00:00:00.000Z'' empty_world)))
     = [(''mock-uid-42'',
         \<lparr>id_u = ''mock-uid-42'', email_u = ''a@x.com'', plan_u = Free,
          trialEndDate = Some ''2026-12-02T00:00:00.000Z''\<rparr>)] \<and>
   hasUsedTrial \<lparr>id_u = ''mock-uid-42'', email_u = ''a@x.com'', plan_u = Free,
          trialEndDate = Some ''2026-12-02T00:00:00.000Z''\<rparr> \<and>
   priceId \<lparr>id_u = ''mock-uid-42'', email_u = ''a@x.com'', plan_u = Free, trialEndDate = None\<rparr>
      ''price_regular'' ''price_trial'' = ''price_trial''"
proof -
  let ?u = "\<lparr>id_u = ''mock-uid-42'', email_u = ''a@x.com'', plan_u = Free, trialEndDate = None\<rparr>"
  have c: "createUserWithEmailAndPassword ''a@x.com'' ''secret1'' 42
        ''2026-12-02T00:00:00.000Z'' empty_world =
      (Inr (Some \<lparr>uid = ''mock-uid-42'', email = ''a@x.com''\<rparr>),
       \<lparr>db = \<lparr>users = [(''mock-uid-42'',
                \<lparr>password_m = ''secret1'', email_m = ''a@x.com'', uid_m = ''mock-uid-42''\<rparr>)],
              userProfiles = [(''mock-uid-42'',
                \<lparr>id_u = ''mock-uid-42'', email_u = ''a@x.com'', plan_u = Free,
                 trialEndDate = Some ''2026-12-02T00:00:00.000Z''\<rparr>)], dreams = []\<rparr>,
        currentUser = Some \<lparr>uid = ''mock-uid-42'', email = ''a@x.com''\<rparr>,
        pending = [Some \<lparr>id_u = ''mock-uid-42'', email_u = ''a@x.com'', plan_u = Free,
                 trialEndDate = Some ''2026-12-02T00:00:00.000Z''\<rparr>],
        emitted = [], io = [ProviderCreateUser ''a@x.com'' ''secret1'', ProfileGet ''mock-uid-42'']\<rparr>)"
    by (simp add: createUserWithEmailAndPassword_def empty_world_def show_nat_42 Let_def
        notifyListeners_def listener_start_def users_doc_get_def)
  have s: "signUp ''a@x.com'' ''secret1'' 42 ''2026-12-02T00:00:00.000Z'' empty_world =
      (Inr ?u,
       \<lparr>db = \<lparr>users = [(''mock-uid-42'',
                \<lparr>password_m = ''secret1'', email_m = ''a@x.com'', uid_m = ''mock-uid-42''\<rparr>)],
              userProfiles = [(''mock-uid-42'', ?u)], dreams = []\<rparr>,
        currentUser = Some \<lparr>uid = ''mock-uid-42'', email = ''a@x.com''\<rparr>,
        pending = [],
        emitted = [Some \<lparr>id_u = ''mock-uid-42'', email_u = ''a@x.com'', plan_u = Free,
                 trialEndDate = Some ''2026-12-02T00:00:00.000Z''\<rparr>],
        io = [ProviderCreateUser ''a@x.com'' ''secret1'', ProfileGet ''mock-uid-42'',
              ProfileSet ''mock-uid-42'' ?u]\<rparr>)"
    by (simp add: signUp_def c users_doc_set_def Let_def settle_def run_def listener_resume_def
        callback_def)
  have h: "fst (signUp ''a@x.com'' ''secret1'' 42 ''2026-12-02T00:00:00.000Z'' empty_world) = Inr ?u"
    by (simp add: s)
  have t: "hasUsedTrial \<lparr>id_u = ''mock-uid-42'', email_u = ''a@x.com'', plan_u = Free,
          trialEndDate = Some ''2026-12-02T00:00:00.000Z''\<rparr>"
    by (simp add: hasUsedTrial_def)
  from signUp_overwrites_trial [of "''a@x.com''" "''secret1''" 42 "''2026-12-02T00:00:00.000Z''"
      empty_world ?u "''price_regular''" "''price_trial''"] h t
  show ?thesis by (simp add: s c show_nat_42)
qed

end
